theory Spec2Isabelle
  imports Complex_Main "HOL-Library.Word" "HOL-Library.Sublist"
begin

unbundle bit_operations_syntax

section \<open>Custom data codec\<close>

text \<open>
  Custom data is a byte vector holding \<open>{field_id, field_len, field_len bytes}*\<close>, the two
  integers in little-endian order. A parsed buffer is a \<open>std::map\<close> from field id to
  payload.
\<close>

type_synonym byte_vector = "8 word list"

type_synonym CustomData = "32 word \<rightharpoonup> byte_vector"

text \<open>
  What a call can end with instead of a value. \<open>FormatError\<close> is the
  \<open>std::runtime_error("custom data format error")\<close> thrown by \<open>parseUint32\<close>.
  \<open>ReadPastEnd\<close> marks the place where the source builds \<open>byte_vector(p, p + len)\<close>
  with \<open>p + len\<close> beyond \<open>end\<close>: the source does not compare \<open>len\<close> with
  \<open>end - p\<close>, so it reads bytes outside the buffer there. \<open>StofError\<close> is the
  exception of \<open>std::stof\<close> on a string that is no number.
\<close>

datatype error = FormatError | ReadPastEnd | StofError

text \<open>
  An iterator pair \<open>(p, end)\<close> is modelled by the bytes from \<open>p\<close> up to \<open>end\<close>;
  advancing \<open>p\<close> drops bytes from the front. \<open>parseUint32\<close> returns the integer
  together with the advanced iterator.
\<close>

definition parseUint32 :: "byte_vector \<Rightarrow> error + (32 word \<times> byte_vector)" where
  "parseUint32 p =
     (if length p < 4 then Inl FormatError
      else Inr (push_bit 0 (ucast (p ! 0) :: 32 word) OR
                push_bit 8 (ucast (p ! 1) :: 32 word) OR
                push_bit 16 (ucast (p ! 2) :: 32 word) OR
                push_bit 24 (ucast (p ! 3) :: 32 word),
                drop 4 p))"

function parseCustomData_loop :: "byte_vector \<Rightarrow> CustomData \<Rightarrow> error + CustomData" where
  "parseCustomData_loop p result =
     (if p = [] then Inr result
      else case parseUint32 p of
             Inl e \<Rightarrow> Inl e
           | Inr (fid, p1) \<Rightarrow>
               (case parseUint32 p1 of
                  Inl e \<Rightarrow> Inl e
                | Inr (len, p2) \<Rightarrow>
                    if length p2 < unat len then Inl ReadPastEnd
                    else parseCustomData_loop (drop (unat len) p2)
                           (result(fid \<mapsto> take (unat len) p2))))"
  by pat_completeness auto
termination
  by (relation "measure (\<lambda>(p, result). length p)")
     (auto simp: parseUint32_def split: if_splits)

definition parseCustomData :: "byte_vector \<Rightarrow> error + CustomData" where
  "parseCustomData buf = parseCustomData_loop buf Map.empty"

section \<open>The host's scene graph\<close>

text \<open>
  The V-REP functions the role search calls are taken as parameters. Object handles are
  C \<open>int\<close>s, \<open>-1\<close> standing for "no object". \<open>simGetObjectCustomData h obj header\<close>
  is the byte sequence the host copies into the caller's buffer.
\<close>

record scene =
  simGetObjectCustomDataLength :: "int \<Rightarrow> int \<Rightarrow> int"
  simGetObjectCustomData :: "int \<Rightarrow> int \<Rightarrow> byte_vector"
  simGetObjectChild :: "int \<Rightarrow> int \<Rightarrow> int"

definition DATA_ID :: int where
  "DATA_ID = 1000"

text \<open>
  \<open>hasCustomDataField\<close> allocates \<open>size\<close> zero bytes, lets the host fill them and parses
  the buffer. There is no \<open>try\<close> in the source: an exception of the parser leaves the
  function.
\<close>

definition hasCustomDataField :: "scene \<Rightarrow> int \<Rightarrow> 32 word \<Rightarrow> error + bool" where
  "hasCustomDataField h obj field =
     (let size = simGetObjectCustomDataLength h obj DATA_ID in
      if size \<le> 0 then Inr False
      else
        let buf = take (nat size)
                    (simGetObjectCustomData h obj DATA_ID @ replicate (nat size) 0)
        in case parseCustomData buf of
             Inl e \<Rightarrow> Inl e
           | Inr data \<Rightarrow> Inr (data field \<noteq> None))"

section \<open>Role search\<close>

text \<open>
  The inner \<open>for (;;)\<close> loop of \<open>searchCustomDataField\<close>: append the children of
  \<open>obj\<close> from index \<open>i\<close> on to the queue, until the host answers \<open>-1\<close>. Nothing
  bounds the loop, so its model is a partial function: \<open>None\<close> is a run that never ends.
\<close>

partial_function (option) push_children :: "scene \<Rightarrow> int \<Rightarrow> int \<Rightarrow> int list \<Rightarrow> int list option" where
  "push_children h obj i q =
     (let child = simGetObjectChild h obj i in
      if child = -1 then Some q
      else push_children h obj (i + 1) (q @ [child]))"

text \<open>
  The outer \<open>while (!q.empty())\<close> loop. Besides the value returned (or the exception
  raised) a run reports the objects it has tested, in order, and the queue it leaves
  behind; both only serve to state the order of the search.
\<close>

partial_function (option) search_loop ::
  "scene \<Rightarrow> 32 word \<Rightarrow> int list \<Rightarrow> int list \<Rightarrow> ((error + int) \<times> int list \<times> int list) option" where
  "search_loop h field q visited =
     (case q of
        [] \<Rightarrow> Some (Inr (-1), visited, [])
      | obj # q' \<Rightarrow>
          (case hasCustomDataField h obj field of
             Inl e \<Rightarrow> Some (Inl e, visited @ [obj], q')
           | Inr found \<Rightarrow>
               if found then Some (Inr obj, visited @ [obj], q')
               else Option.bind (push_children h obj 0 q')
                      (\<lambda>q''. search_loop h field q'' (visited @ [obj]))))"

definition searchCustomDataField :: "scene \<Rightarrow> int \<Rightarrow> 32 word \<Rightarrow> (error + int) option" where
  "searchCustomDataField h root_obj field = map_option fst (search_loop h field [root_obj] [])"

definition query :: "scene \<Rightarrow> int \<Rightarrow> error + bool" where
  "query h obj = hasCustomDataField h obj 0"

subsection \<open>Finite object trees\<close>

text \<open>
  A finite tree of objects, and what it means for the host's child enumeration to unfold
  to it below the tree's root: the children of a node are the host's answers at the
  indices \<open>0, 1, ...\<close>, none of them \<open>-1\<close>, and the host answers \<open>-1\<close> at the next index.
\<close>

datatype object_tree = Node (obj_of: int) (kids: "object_tree list")

fun hierarchy :: "scene \<Rightarrow> object_tree \<Rightarrow> bool" where
  "hierarchy h (Node x ts) =
     (map (\<lambda>i. simGetObjectChild h x (int i)) [0..<length ts] = map obj_of ts \<and>
      list_all (\<lambda>t. obj_of t \<noteq> -1) ts \<and>
      simGetObjectChild h x (int (length ts)) = -1 \<and>
      list_all (hierarchy h) ts)"

text \<open>The breadth-first (level) order of the nodes of a forest, left to right.\<close>

function bfs :: "object_tree list \<Rightarrow> int list" where
  "bfs [] = []"
| "bfs (Node x ts # q) = x # bfs (q @ ts)"
  by pat_completeness auto
termination
  by (relation "measure (\<lambda>q. sum_list (map size q))")
     (auto simp: size_list_conv_sum_list)

text \<open>An object is passed over by the search when its custom data parses and lacks the field.\<close>

definition passed_over :: "scene \<Rightarrow> 32 word \<Rightarrow> int \<Rightarrow> bool" where
  "passed_over h field obj = (hasCustomDataField h obj field = Inr False)"

definition outcome_at :: "scene \<Rightarrow> 32 word \<Rightarrow> int list \<Rightarrow> error + int" where
  "outcome_at h field objs =
     (case objs of
        [] \<Rightarrow> Inr (-1)
      | obj # _ \<Rightarrow> (case hasCustomDataField h obj field of Inl e \<Rightarrow> Inl e | Inr _ \<Rightarrow> Inr obj))"

section \<open>The quadcopter and its environment\<close>

text \<open>
  Single-precision numbers are values of a type \<open>'f\<close> of which only the symbols
  \<open>+\<close>, \<open>-\<close>, \<open>*\<close> and unary minus are used: no law of arithmetic is assumed, so a
  statement about \<open>'f\<close> holds whatever each operation rounds to. The environment gives
  the value \<open>flit x\<close> of a floating literal, \<open>std::to_string\<close> and \<open>std::stof\<close>
  (\<open>None\<close> where it throws), and the V-REP functions the controller calls. A V-REP
  function that fills an array and returns \<open>-1\<close> on failure is a function to
  \<open>option\<close>, \<open>None\<close> being the \<open>-1\<close>. Arrays of floats are functions from the index.
\<close>

type_synonym 'f array = "nat \<Rightarrow> 'f"

record 'f env =
  flit :: "real \<Rightarrow> 'f"
  to_string :: "'f \<Rightarrow> string"
  stof :: "string \<Rightarrow> 'f option"
  simGetObjectPosition :: "int \<Rightarrow> int \<Rightarrow> 'f array option"
  simGetObjectVelocity :: "int \<Rightarrow> 'f array option"
  simGetObjectMatrix :: "int \<Rightarrow> int \<Rightarrow> 'f array option"
  simTransformVector :: "'f array \<Rightarrow> 'f array \<Rightarrow> 'f array option"
  simGetObjectOrientation :: "int \<Rightarrow> int \<Rightarrow> 'f array option"
  simGetScriptAssociatedWithObject :: "int \<Rightarrow> int"
  simGetScriptSimulationParameter :: "int \<Rightarrow> string \<Rightarrow> string option"

text \<open>
  The members of class \<open>Quadcopter\<close>, as the methods use them: object handles, the four
  motor handles \<open>m_motors[0..3]\<close> (a list of length 4) and the controller's memory.
  The class declaration is in \<open>Quadcopter.h\<close>; \<open>m_last_save_time\<close> is taken to be
  a float, as the comparison with \<open>float now\<close> in \<open>simulationStepped\<close> suggests.
\<close>

record 'f Quadcopter =
  m_obj :: int
  m_uniqueID :: int
  m_body :: int
  m_target :: int
  m_cameraDown :: int
  m_cameraFront :: int
  m_motors :: "int list"
  m_last_save_time :: 'f
  m_cumul :: 'f
  m_lastE :: 'f
  m_pAlphaE :: 'f
  m_pBetaE :: 'f
  m_psp0 :: 'f
  m_psp1 :: 'f
  m_prevEuler :: 'f

definition simulationStarted :: "'f env \<Rightarrow> 'f Quadcopter \<Rightarrow> 'f Quadcopter" where
  "simulationStarted E q =
     q\<lparr>m_last_save_time := flit E 0,
       m_cumul := flit E 0,
       m_lastE := flit E 0,
       m_pAlphaE := flit E 0,
       m_pBetaE := flit E 0,
       m_psp0 := flit E 0,
       m_psp1 := flit E 0,
       m_prevEuler := flit E 0\<rparr>"

definition simulationStopped :: "'f Quadcopter \<Rightarrow> 'f Quadcopter" where
  "simulationStopped q = q"

text \<open>
  What a method does to the outside: a call of \<open>simSetScriptSimulationParameter\<close> with
  the script, the parameter name and the string written, or a line on \<open>stderr\<close>
  (for the \<open>CHECK\<close> macro, the source line and the text of the failed expression).
\<close>

datatype actuator_call = SetScriptSimulationParameter int string string

datatype log_line = CheckFailed nat string | Message string

definition setMotorParticleVelocity ::
  "'f env \<Rightarrow> 'f Quadcopter \<Rightarrow> int \<Rightarrow> 'f \<Rightarrow> 'f Quadcopter \<times> actuator_call list" where
  "setMotorParticleVelocity E q n v =
     (if n < 0 \<or> n > 3 then (q, [])
      else
        let script = simGetScriptAssociatedWithObject E (m_motors q ! nat n) in
        if script = -1 then (q, [])
        else
          let s = to_string E v in
          (q, [SetScriptSimulationParameter script ''particleVelocity'' s]))"

definition getMotorParticleVelocity ::
  "'f env \<Rightarrow> 'f Quadcopter \<Rightarrow> int \<Rightarrow> (error + 'f) \<times> log_line list" where
  "getMotorParticleVelocity E q n =
     (if n < 0 \<or> n > 3 then (Inr (flit E 0), [])
      else
        let result = flit E 0;
            script = simGetScriptAssociatedWithObject E (m_motors q ! nat n)
        in
        if script = -1 then (Inr (flit E 0), [Message ''getting motor script failed''])
        else
          case simGetScriptSimulationParameter E script ''particleVelocity'' of
            Some s \<Rightarrow>
              (case stof E s of
                 None \<Rightarrow> (Inl StofError, [])
               | Some r \<Rightarrow> (Inr r, []))
          | None \<Rightarrow> (Inr result, [Message ''getting motor velocity failed'']))"

section \<open>The PID controller\<close>

text \<open>
  The values \<open>pidControl\<close> holds in local variables when it reaches the motor writes.
\<close>

record 'f locals =
  thrust :: 'f
  alphaCorr :: 'f
  betaCorr :: 'f
  rotCorr :: 'f
  motorVel :: "'f list"

definition arr3 :: "'f \<Rightarrow> 'f \<Rightarrow> 'f \<Rightarrow> 'f array" where
  "arr3 a b c = (\<lambda>i. if i = 0 then a else if i = 1 then b else c)"

text \<open>
  The part of \<open>pidControl\<close> up to the assignment of \<open>motorVel\<close>. Each \<open>CHECK\<close> that
  finds \<open>-1\<close> prints its line and returns from the function: the result is then the
  line together with the members as they are at that point.
\<close>

definition pidControl_compute ::
  "('f::{plus,minus,times,uminus}) env \<Rightarrow> 'f Quadcopter
     \<Rightarrow> (log_line \<times> 'f Quadcopter) + ('f locals \<times> 'f Quadcopter)" where
  "pidControl_compute E q =
     (let pParam = flit E 1; iParam = flit E 0; dParam = flit E 0; vParam = - flit E 2;
          d = m_body q
      in
      case simGetObjectPosition E (m_target q) (-1) of
        None \<Rightarrow> Inl (CheckFailed 296 ''simGetObjectPosition(m_target, -1, targetPos)'', q)
      | Some targetPos \<Rightarrow>
      case simGetObjectPosition E d (-1) of
        None \<Rightarrow> Inl (CheckFailed 297 ''simGetObjectPosition(d, -1, pos)'', q)
      | Some pos \<Rightarrow>
      case simGetObjectVelocity E (m_obj q) of
        None \<Rightarrow> Inl (CheckFailed 298 ''simGetObjectVelocity(m_obj, vel, NULL)'', q)
      | Some vel \<Rightarrow>
      let error = targetPos 2 - pos 2;
          q1 = q\<lparr>m_cumul := m_cumul q + error\<rparr>;
          pv = pParam * error;
          thrust = flit E 5.335 + pv + iParam * m_cumul q1 + dParam * (error - m_lastE q1)
                     + vel 2 * vParam;
          q2 = q1\<lparr>m_lastE := error\<rparr>
      in
      case simGetObjectPosition E (m_target q2) d of
        None \<Rightarrow> Inl (CheckFailed 312 ''simGetObjectPosition(m_target, d, sp)'', q2)
      | Some sp \<Rightarrow>
      case simGetObjectMatrix E d (-1) of
        None \<Rightarrow> Inl (CheckFailed 313 ''simGetObjectMatrix(d, -1, m)'', q2)
      | Some m \<Rightarrow>
      case simTransformVector E m (arr3 (flit E 1) (flit E 0) (flit E 0)) of
        None \<Rightarrow> Inl (CheckFailed 314 ''simTransformVector(m, vx)'', q2)
      | Some vx \<Rightarrow>
      case simTransformVector E m (arr3 (flit E 0) (flit E 1) (flit E 0)) of
        None \<Rightarrow> Inl (CheckFailed 315 ''simTransformVector(m, vy)'', q2)
      | Some vy \<Rightarrow>
      let alphaE = vy 2 - m 11;
          alphaCorr = flit E 0.25 * alphaE + flit E 2.1 * (alphaE - m_pAlphaE q2);
          betaE = vx 2 - m 11;
          betaCorr = (- flit E 0.25) * betaE - flit E 2.1 * (betaE - m_pBetaE q2);
          q3 = q2\<lparr>m_pAlphaE := alphaE, m_pBetaE := betaE\<rparr>;
          alphaCorr = alphaCorr + sp 1 * flit E 0.005 + flit E 1 * (sp 1 - m_psp1 q3);
          betaCorr = betaCorr - sp 0 * flit E 0.005 - flit E 1 * (sp 0 - m_psp0 q3);
          q4 = q3\<lparr>m_psp0 := sp 0, m_psp1 := sp 1\<rparr>
      in
      case simGetObjectOrientation E d (m_target q4) of
        None \<Rightarrow> Inl (CheckFailed 332 ''simGetObjectOrientation(d, m_target, euler)'', q4)
      | Some euler \<Rightarrow>
      let rotCorr = euler 2 * flit E 0.1 + flit E 2 * (euler 2 - m_prevEuler q4);
          q5 = q4\<lparr>m_prevEuler := euler 2\<rparr>;
          motorVel =
            [thrust * (flit E 1 - alphaCorr + betaCorr + rotCorr),
             thrust * (flit E 1 - alphaCorr - betaCorr - rotCorr),
             thrust * (flit E 1 + alphaCorr - betaCorr + rotCorr),
             thrust * (flit E 1 + alphaCorr + betaCorr - rotCorr)]
      in Inr (\<lparr>thrust = thrust, alphaCorr = alphaCorr, betaCorr = betaCorr,
                rotCorr = rotCorr, motorVel = motorVel\<rparr>, q5))"

text \<open>One call of \<open>pidControl\<close>: the members afterwards, the actuator calls, the lines printed.\<close>

record 'f tick =
  state :: "'f Quadcopter"
  calls :: "actuator_call list"
  stderr :: "log_line list"

definition pidControl :: "('f::{plus,minus,times,uminus}) env \<Rightarrow> 'f Quadcopter \<Rightarrow> 'f tick" where
  "pidControl E q =
     (case pidControl_compute E q of
        Inl (line, q') \<Rightarrow> \<lparr>state = q', calls = [], stderr = [line]\<rparr>
      | Inr (l, q') \<Rightarrow>
          let (q0, c0) = setMotorParticleVelocity E q' 0 (motorVel l ! 0);
              (q1, c1) = setMotorParticleVelocity E q0 1 (motorVel l ! 1);
              (q2, c2) = setMotorParticleVelocity E q1 2 (motorVel l ! 2);
              (q3, c3) = setMotorParticleVelocity E q2 3 (motorVel l ! 3)
          in \<lparr>state = q3, calls = c0 @ c1 @ c2 @ c3, stderr = []\<rparr>)"

definition simulationStepped :: "('f::{plus,minus,times,uminus}) env \<Rightarrow> 'f Quadcopter \<Rightarrow> 'f tick" where
  "simulationStepped E q = pidControl E q"

section \<open>Concrete scenes and environments\<close>

text \<open>
  A host whose objects carry the blobs \<open>blobs obj\<close> under the header \<open>DATA_ID\<close> and
  have the children \<open>children obj\<close>, in this order.
\<close>

definition table_scene :: "(int \<Rightarrow> byte_vector) \<Rightarrow> (int \<Rightarrow> int list) \<Rightarrow> scene" where
  "table_scene blobs children =
     \<lparr>simGetObjectCustomDataLength =
        (\<lambda>obj header. if header = 1000 then int (length (blobs obj)) else 0),
      simGetObjectCustomData = (\<lambda>obj header. if header = 1000 then blobs obj else []),
      simGetObjectChild =
        (\<lambda>obj i. if 0 \<le> i \<and> nat i < length (children obj) then children obj ! nat i else -1)\<rparr>"

text \<open>
  A root with two children, each with two children. Objects 5 and 6 carry the field 8
  (with an empty payload), object 3 the field 7 with the payload \<open>[9, 9]\<close>.
\<close>

definition level_scene :: scene where
  "level_scene =
     table_scene
       (\<lambda>obj. if obj = 5 \<or> obj = 6 then [8, 0, 0, 0, 0, 0, 0, 0]
              else if obj = 3 then [7, 0, 0, 0, 2, 0, 0, 0, 9, 9] else [])
       (\<lambda>obj. if obj = 1 then [2, 3] else if obj = 2 then [4, 5]
              else if obj = 3 then [6, 7] else [])"

definition level_tree :: object_tree where
  "level_tree = Node 1 [Node 2 [Node 4 [], Node 5 []], Node 3 [Node 6 [], Node 7 []]]"

text \<open>A root whose blob stops after three bytes, above a child that carries the field 8.\<close>

definition cut_root_scene :: scene where
  "cut_root_scene =
     table_scene
       (\<lambda>obj. if obj = 1 then [5, 0, 0] else if obj = 2 then [8, 0, 0, 0, 0, 0, 0, 0] else [])
       (\<lambda>obj. if obj = 1 then [2] else [])"

text \<open>A single object whose blob is one byte long.\<close>

definition one_byte_scene :: scene where
  "one_byte_scene = table_scene (\<lambda>obj. if obj = 1 then [0] else []) (\<lambda>obj. [])"

text \<open>A single object whose blob ends in the middle of the second integer.\<close>

definition half_header_scene :: scene where
  "half_header_scene =
     table_scene (\<lambda>obj. if obj = 1 then [8, 0, 0, 0, 4, 0] else []) (\<lambda>obj. [])"

text \<open>
  A root above two children: the blob of the first child, object 2, ends in the middle of
  its second integer; the second child, object 3, carries the field 8.
\<close>

definition cut_child_scene :: scene where
  "cut_child_scene =
     table_scene
       (\<lambda>obj. if obj = 2 then [8, 0, 0, 0, 4, 0]
              else if obj = 3 then [8, 0, 0, 0, 0, 0, 0, 0] else [])
       (\<lambda>obj. if obj = 1 then [2, 3] else [])"

text \<open>
  The example of the specification, in exact arithmetic: the quadcopter is object 1, its
  body object 2 at height 1, its target object 3 at height 2, nothing moves or turns, and
  the motors 4 to 7 have the scripts 104 to 107.
\<close>

definition hover_env :: "real env" where
  "hover_env =
     \<lparr>flit = (\<lambda>x. x),
      to_string = (\<lambda>v. if v = 6.335 then ''6.335000'' else ''other''),
      stof = (\<lambda>s. None),
      simGetObjectPosition =
        (\<lambda>obj rel. if rel = -1 then (if obj = 3 then Some (arr3 0 0 2) else Some (arr3 0 0 1))
                   else Some (arr3 0 0 0)),
      simGetObjectVelocity = (\<lambda>obj. Some (arr3 0 0 0)),
      simGetObjectMatrix = (\<lambda>obj rel. Some (\<lambda>i. 0)),
      simTransformVector = (\<lambda>m v. Some (arr3 0 0 0)),
      simGetObjectOrientation = (\<lambda>obj rel. Some (arr3 0 0 0)),
      simGetScriptAssociatedWithObject = (\<lambda>obj. if 4 \<le> obj \<and> obj \<le> 7 then obj + 100 else -1),
      simGetScriptSimulationParameter = (\<lambda>script name. None)\<rparr>"

definition hover_quad :: "real Quadcopter" where
  "hover_quad =
     \<lparr>m_obj = 1, m_uniqueID = 0, m_body = 2, m_target = 3, m_cameraDown = -1,
      m_cameraFront = -1, m_motors = [4, 5, 6, 7], m_last_save_time = 0, m_cumul = 0,
      m_lastE = 0, m_pAlphaE = 0, m_pBetaE = 0, m_psp0 = 0, m_psp1 = 0, m_prevEuler = 0\<rparr>"

text \<open>The same, but the quadcopter object rises with velocity 1 while the body's is 0.\<close>

definition rising_env :: "real env" where
  "rising_env =
     hover_env\<lparr>simGetObjectVelocity :=
                 (\<lambda>obj. if obj = 1 then Some (arr3 0 0 1) else Some (arr3 0 0 0))\<rparr>"

text \<open>The hovering scene with one read failing: the velocity, the matrix, the orientation.\<close>

definition no_velocity_env :: "real env" where
  "no_velocity_env = hover_env\<lparr>simGetObjectVelocity := (\<lambda>obj. None)\<rparr>"

definition no_matrix_env :: "real env" where
  "no_matrix_env = hover_env\<lparr>simGetObjectMatrix := (\<lambda>obj rel. None)\<rparr>"

definition no_orientation_env :: "real env" where
  "no_orientation_env = hover_env\<lparr>simGetObjectOrientation := (\<lambda>obj rel. None)\<rparr>"

text \<open>A quadcopter whose fourth motor is an object without a script.\<close>

definition lame_quad :: "real Quadcopter" where
  "lame_quad = hover_quad\<lparr>m_motors := [4, 5, 6, 70]\<rparr>"

text \<open>A quadcopter with values left in every member by an earlier run.\<close>

definition used_quad :: "real Quadcopter" where
  "used_quad =
     \<lparr>m_obj = 1, m_uniqueID = 0, m_body = 2, m_target = 3, m_cameraDown = -1,
      m_cameraFront = -1, m_motors = [4, 5, 6, 7], m_last_save_time = 12, m_cumul = 3,
      m_lastE = 1 / 2, m_pAlphaE = 1 / 4, m_pBetaE = - 1 / 4, m_psp0 = 2, m_psp1 = - 2,
      m_prevEuler = 1 / 10\<rparr>"

text \<open>
  The thrust as it would be with the vertical velocity read from the body object
  \<open>m_body\<close>; \<^const>\<open>pidControl_compute\<close> reads the velocity of \<open>m_obj\<close>.
\<close>

definition thrust_from_body_velocity ::
  "('f::{plus,minus,times,uminus}) env \<Rightarrow> 'f Quadcopter \<Rightarrow> 'f option" where
  "thrust_from_body_velocity E q =
     (case simGetObjectPosition E (m_target q) (-1) of
        None \<Rightarrow> None
      | Some targetPos \<Rightarrow>
      case simGetObjectPosition E (m_body q) (-1) of
        None \<Rightarrow> None
      | Some pos \<Rightarrow>
      case simGetObjectVelocity E (m_body q) of
        None \<Rightarrow> None
      | Some bodyVel \<Rightarrow>
          let error = targetPos 2 - pos 2; integral = m_cumul q + error in
          Some (flit E 5.335 + flit E 1 * error + flit E 0 * integral
                + flit E 0 * (error - m_lastE q) + (- flit E 2) * bodyVel 2))"

definition computed_thrust ::
  "('f::{plus,minus,times,uminus}) env \<Rightarrow> 'f Quadcopter \<Rightarrow> 'f option" where
  "computed_thrust E q =
     (case pidControl_compute E q of Inl _ \<Rightarrow> None | Inr (l, q') \<Rightarrow> Some (thrust l))"

section \<open>Properties of the codec\<close>

lemma parseUint32_short: "length p < 4 \<Longrightarrow> parseUint32 p = Inl FormatError"
  by (simp add: parseUint32_def)

lemma parseCustomData_short_id:
  "buf \<noteq> [] \<Longrightarrow> length buf < 4 \<Longrightarrow> parseCustomData buf = Inl FormatError"
  by (simp add: parseCustomData_def parseUint32_def)

lemma parseCustomData_short_len:
  "4 \<le> length buf \<Longrightarrow> length buf < 8 \<Longrightarrow> parseCustomData buf = Inl FormatError"
  by (auto simp: parseCustomData_def parseUint32_def)

text \<open>
  Claim C2. A buffer that ends where a 32-bit integer is expected makes the parser raise
  \<open>FormatError\<close> (the three lemmas above). The payload is not guarded in the same way:
  on the eight bytes \<open>00 00 00 00 01 00 00 00\<close> (field 0, declared length 1, no payload
  byte) both integers are read, and then \<open>byte_vector(p, p + len)\<close> is built with
  \<open>p = end\<close> and \<open>len = 1\<close>: the byte after the buffer is read before any error is
  raised.
\<close>

theorem parseCustomData_overlong_length:
  "parseCustomData [0, 0, 0, 0, 1, 0, 0, 0] = Inl ReadPastEnd \<and>
   parseCustomData [0, 0, 0, 0, 1, 0, 0, 0] \<noteq> Inl FormatError"
  by (simp add: parseCustomData_def parseUint32_def)

section \<open>Properties of the role search\<close>

text \<open>The breadth-first order of a forest starts with its roots.\<close>

lemma bfs_append: "bfs (q @ r) = map obj_of q @ bfs (r @ concat (map kids q))"
proof (induction q arbitrary: r)
  case Nil show ?case by simp
next
  case (Cons t q)
  obtain x ts where t: "t = Node x ts" by (cases t)
  show ?case using Cons.IH [of "r @ ts"] by (simp add: t)
qed

lemma push_children_hierarchy:
  assumes "hierarchy h (Node x ts)" "i \<le> length ts"
  shows "push_children h x (int i) q = Some (q @ map obj_of (drop i ts))"
  using assms(2)
proof (induction "length ts - i" arbitrary: i q)
  case 0
  then have "i = length ts" by simp
  with assms(1) show ?case by (subst push_children.simps) simp
next
  case (Suc n)
  then have i: "i < length ts" by simp
  from assms(1) have m: "map (\<lambda>i. simGetObjectChild h x (int i)) [0..<length ts] = map obj_of ts"
    and ne: "list_all (\<lambda>t. obj_of t \<noteq> -1) ts" by simp_all
  from i have "simGetObjectChild h x (int i) = map (\<lambda>i. simGetObjectChild h x (int i)) [0..<length ts] ! i"
    by simp
  also from i have "\<dots> = obj_of (ts ! i)" by (simp only: m nth_map)
  finally have c: "simGetObjectChild h x (int i) = obj_of (ts ! i)" .
  from ne i have n1: "obj_of (ts ! i) \<noteq> -1" by (simp add: list_all_length)
  have "push_children h x (int (Suc i)) (q @ [obj_of (ts ! i)]) =
      Some ((q @ [obj_of (ts ! i)]) @ map obj_of (drop (Suc i) ts))"
    using Suc by (intro Suc.hyps(1)) simp_all
  then have "push_children h x (int i + 1) (q @ [obj_of (ts ! i)]) =
      Some (q @ map obj_of (drop i ts))"
    using i by (simp add: Cons_nth_drop_Suc [symmetric] add.commute)
  then show ?case using c n1
    by (subst push_children.simps) simp
qed

lemma search_loop_forest:
  assumes "list_all (hierarchy h) q"
  shows "\<exists>q'. search_loop h field (map obj_of q) vis =
           Some (outcome_at h field (dropWhile (passed_over h field) (bfs q)),
                 vis @ takeWhile (passed_over h field) (bfs q)
                     @ take 1 (dropWhile (passed_over h field) (bfs q)),
                 q') \<and>
         prefix (takeWhile (passed_over h field) (bfs q)
                   @ take 1 (dropWhile (passed_over h field) (bfs q)) @ q') (bfs q) \<and>
         (dropWhile (passed_over h field) (bfs q) = [] \<longrightarrow> q' = [])"
  using assms
proof (induction q arbitrary: vis rule: bfs.induct)
  case 1
  show ?case by (subst search_loop.simps) (simp add: outcome_at_def)
next
  case (2 x ts q)
  from "2.prems" have hx: "hierarchy h (Node x ts)" and hq: "list_all (hierarchy h) q"
    by simp_all
  from hx have hts: "list_all (hierarchy h) ts" by simp
  have pre: "prefix (map obj_of q) (bfs (q @ ts))"
    by (subst bfs_append) simp
  show ?case
  proof (cases "passed_over h field x")
    case False
    then have "search_loop h field (map obj_of (Node x ts # q)) vis =
        Some (outcome_at h field (x # bfs (q @ ts)), vis @ [x], map obj_of q)"
      by (subst search_loop.simps)
         (auto simp: passed_over_def outcome_at_def split: sum.splits)
    with False pre show ?thesis by simp
  next
    case True
    have pc: "push_children h x 0 (map obj_of q) = Some (map obj_of (q @ ts))"
      using push_children_hierarchy [OF hx, of 0 "map obj_of q"] by simp
    from hq hts have "list_all (hierarchy h) (q @ ts)" by simp
    from "2.IH" [OF this, of "vis @ [x]"] obtain q' where
      run: "search_loop h field (map obj_of (q @ ts)) (vis @ [x]) =
           Some (outcome_at h field (dropWhile (passed_over h field) (bfs (q @ ts))),
                 (vis @ [x]) @ takeWhile (passed_over h field) (bfs (q @ ts))
                     @ take 1 (dropWhile (passed_over h field) (bfs (q @ ts))),
                 q')"
      and pf: "prefix (takeWhile (passed_over h field) (bfs (q @ ts))
                   @ take 1 (dropWhile (passed_over h field) (bfs (q @ ts))) @ q') (bfs (q @ ts))"
      and ex: "dropWhile (passed_over h field) (bfs (q @ ts)) = [] \<longrightarrow> q' = []"
      by blast
    from True have "search_loop h field (map obj_of (Node x ts # q)) vis =
        search_loop h field (map obj_of (q @ ts)) (vis @ [x])"
      by (subst search_loop.simps) (simp add: passed_over_def pc)
    with run pf ex True show ?thesis by simp
  qed
qed

lemma search_loop_tree:
  assumes "hierarchy h t"
  shows "\<exists>q'. search_loop h field [obj_of t] [] =
           Some (outcome_at h field (dropWhile (passed_over h field) (bfs [t])),
                 takeWhile (passed_over h field) (bfs [t])
                     @ take 1 (dropWhile (passed_over h field) (bfs [t])),
                 q') \<and>
         prefix (takeWhile (passed_over h field) (bfs [t])
                   @ take 1 (dropWhile (passed_over h field) (bfs [t])) @ q') (bfs [t]) \<and>
         (dropWhile (passed_over h field) (bfs [t]) = [] \<longrightarrow> q' = [])"
  using search_loop_forest [of h "[t]" field "[]"] assms by simp

lemma hierarchy_level: "hierarchy level_scene level_tree"
  by (simp add: level_scene_def level_tree_def table_scene_def upt_rec)

lemma bfs_level: "bfs [level_tree] = [1, 2, 3, 4, 5, 6, 7]"
  by (simp add: level_tree_def)

lemma has_level:
  "hasCustomDataField level_scene obj 8 = Inr (obj = 5 \<or> obj = 6)"
  by (simp add: hasCustomDataField_def level_scene_def table_scene_def DATA_ID_def
      parseCustomData_def parseUint32_def)

lemma has_level_9: "hasCustomDataField level_scene obj 9 = Inr False"
  by (simp add: hasCustomDataField_def level_scene_def table_scene_def DATA_ID_def
      parseCustomData_def parseUint32_def)

lemma hierarchy_cut_root: "hierarchy cut_root_scene (Node 1 [Node 2 []])"
  by (simp add: cut_root_scene_def table_scene_def)

text \<open>
  Claim C3, as stated, fails: on an object whose blob is the single byte \<open>00\<close>,
  \<open>hasCustomDataField\<close> does not answer \<open>false\<close>; the \<open>FormatError\<close> leaves it, and
  leaves the search started at that object.
\<close>

theorem hasCustomDataField_FormatError_counterexample:
  "hasCustomDataField one_byte_scene 1 8 = Inl FormatError \<and>
   hasCustomDataField one_byte_scene 1 8 \<noteq> Inr False \<and>
   searchCustomDataField one_byte_scene 1 8 = Some (Inl FormatError)"
proof -
  have has: "hasCustomDataField one_byte_scene 1 8 = Inl FormatError"
    by (simp add: hasCustomDataField_def one_byte_scene_def table_scene_def DATA_ID_def
        parseCustomData_def parseUint32_def)
  have "search_loop one_byte_scene 8 [1] [] = Some (Inl FormatError, [1], [])"
    by (subst search_loop.simps) (simp add: has)
  with has show ?thesis by (simp add: searchCustomDataField_def)
qed

text \<open>
  Claim C3, amended. For every object whose custom data is not empty and does not parse,
  the parser's error is the outcome of \<open>hasCustomDataField\<close> on that object; it is
  not turned into "no match". The search ends with that error as soon as it takes the
  object from the queue, whatever else the queue holds and whatever it has tested before:
  it tests no further object. So a search started at the object ends with the error, and
  a search over a finite tree ends with the error when every object before that one, in
  breadth-first order, is passed over.
\<close>

theorem hasCustomDataField_error_escapes:
  assumes "0 < simGetObjectCustomDataLength h obj DATA_ID"
    and "parseCustomData
           (take (nat (simGetObjectCustomDataLength h obj DATA_ID))
              (simGetObjectCustomData h obj DATA_ID
                 @ replicate (nat (simGetObjectCustomDataLength h obj DATA_ID)) 0)) = Inl e"
  shows "hasCustomDataField h obj field = Inl e \<and>
         search_loop h field (obj # q') vis = Some (Inl e, vis @ [obj], q') \<and>
         searchCustomDataField h obj field = Some (Inl e) \<and>
         (hierarchy h t \<and> bfs [t] = pre @ obj # post \<and>
          list_all (passed_over h field) pre \<longrightarrow>
            searchCustomDataField h (obj_of t) field = Some (Inl e) \<and>
            map_option (\<lambda>r. fst (snd r)) (search_loop h field [obj_of t] []) =
              Some (pre @ [obj]))"
proof -
  from assms have has: "hasCustomDataField h obj field = Inl e"
    by (simp add: hasCustomDataField_def Let_def)
  have step: "search_loop h field (obj # q) v = Some (Inl e, v @ [obj], q)" for q v
    by (subst search_loop.simps) (simp add: has)
  from step [of "[]" "[]"] have start: "searchCustomDataField h obj field = Some (Inl e)"
    by (simp add: searchCustomDataField_def)
  have tree: "searchCustomDataField h (obj_of t) field = Some (Inl e) \<and>
      map_option (\<lambda>r. fst (snd r)) (search_loop h field [obj_of t] []) = Some (pre @ [obj])"
    if hier: "hierarchy h t" and order: "bfs [t] = pre @ obj # post"
      and pre: "list_all (passed_over h field) pre"
  proof -
    let ?P = "passed_over h field"
    from has have nP: "\<not> ?P obj"
      by (simp add: passed_over_def)
    from pre have "dropWhile ?P (pre @ obj # post) = dropWhile ?P (obj # post)"
      by (intro dropWhile_append2) (simp add: list_all_iff)
    with nP order have d: "dropWhile ?P (bfs [t]) = obj # post"
      by simp
    from pre have "takeWhile ?P (pre @ obj # post) = pre @ takeWhile ?P (obj # post)"
      by (intro takeWhile_append2) (simp add: list_all_iff)
    with nP order have tk: "takeWhile ?P (bfs [t]) = pre"
      by simp
    from search_loop_tree [OF hier, of field] obtain q'' where
      "search_loop h field [obj_of t] [] =
         Some (outcome_at h field (dropWhile ?P (bfs [t])),
               takeWhile ?P (bfs [t]) @ take 1 (dropWhile ?P (bfs [t])), q'')"
      by blast
    then have "search_loop h field [obj_of t] [] = Some (Inl e, pre @ [obj], q'')"
      unfolding d tk by (simp add: outcome_at_def has)
    then show ?thesis
      by (simp add: searchCustomDataField_def)
  qed
  from has step [of q' vis] start tree show ?thesis
    by blast
qed

lemma hierarchy_cut_child: "hierarchy cut_child_scene (Node 1 [Node 2 [], Node 3 []])"
  by (simp add: cut_child_scene_def table_scene_def upt_rec)

lemma has_cut_child_1: "hasCustomDataField cut_child_scene 1 8 = Inr False"
  by (simp add: hasCustomDataField_def cut_child_scene_def table_scene_def DATA_ID_def)

lemma has_cut_child_3: "hasCustomDataField cut_child_scene 3 8 = Inr True"
  by (simp add: hasCustomDataField_def cut_child_scene_def table_scene_def DATA_ID_def
      parseCustomData_def parseUint32_def)

text \<open>
  Claim C3, amended, on a blob that ends inside its length field: at the root of a search,
  and at the first child of a root whose second child carries the field. The second
  search ends with the error after testing 1 and 2; it does not go on to return 3.
\<close>

theorem hasCustomDataField_error_escapes_witness:
  "0 < simGetObjectCustomDataLength half_header_scene 1 DATA_ID \<and>
   hasCustomDataField half_header_scene 1 8 = Inl FormatError \<and>
   searchCustomDataField half_header_scene 1 8 = Some (Inl FormatError) \<and>
   0 < simGetObjectCustomDataLength cut_child_scene 2 DATA_ID \<and>
   hierarchy cut_child_scene (Node 1 [Node 2 [], Node 3 []]) \<and>
   bfs [Node 1 [Node 2 [], Node 3 []]] = [1] @ 2 # [3] \<and>
   list_all (passed_over cut_child_scene 8) [1] \<and>
   hasCustomDataField cut_child_scene 2 8 = Inl FormatError \<and>
   hasCustomDataField cut_child_scene 3 8 = Inr True \<and>
   search_loop cut_child_scene 8 [2, 3] [1] = Some (Inl FormatError, [1, 2], [3]) \<and>
   searchCustomDataField cut_child_scene 1 8 = Some (Inl FormatError) \<and>
   map_option (\<lambda>r. fst (snd r)) (search_loop cut_child_scene 8 [1] []) = Some [1, 2]"
proof -
  have len: "0 < simGetObjectCustomDataLength half_header_scene 1 DATA_ID"
    by (simp add: half_header_scene_def table_scene_def DATA_ID_def)
  have parse: "parseCustomData
           (take (nat (simGetObjectCustomDataLength half_header_scene 1 DATA_ID))
              (simGetObjectCustomData half_header_scene 1 DATA_ID
                 @ replicate (nat (simGetObjectCustomDataLength half_header_scene 1 DATA_ID)) 0))
         = Inl FormatError"
    by (simp add: half_header_scene_def table_scene_def DATA_ID_def
        parseCustomData_def parseUint32_def)
  have len2: "0 < simGetObjectCustomDataLength cut_child_scene 2 DATA_ID"
    by (simp add: cut_child_scene_def table_scene_def DATA_ID_def)
  have parse2: "parseCustomData
           (take (nat (simGetObjectCustomDataLength cut_child_scene 2 DATA_ID))
              (simGetObjectCustomData cut_child_scene 2 DATA_ID
                 @ replicate (nat (simGetObjectCustomDataLength cut_child_scene 2 DATA_ID)) 0))
         = Inl FormatError"
    by (simp add: cut_child_scene_def table_scene_def DATA_ID_def
        parseCustomData_def parseUint32_def)
  have order: "bfs [Node 1 [Node 2 [], Node 3 []]] = [1] @ 2 # [3]"
    by simp
  have pre: "list_all (passed_over cut_child_scene 8) [1]"
    by (simp add: passed_over_def has_cut_child_1)
  have root: "obj_of (Node 1 [Node 2 [], Node 3 []]) = 1"
    by simp
  from hasCustomDataField_error_escapes [OF len parse, of 8]
  have a: "hasCustomDataField half_header_scene 1 8 = Inl FormatError \<and>
      searchCustomDataField half_header_scene 1 8 = Some (Inl FormatError)"
    by blast
  from hasCustomDataField_error_escapes [OF len2 parse2,
      where field = 8 and q' = "[3]" and vis = "[1]"
        and t = "Node 1 [Node 2 [], Node 3 []]" and pre = "[1]" and post = "[3]"]
    hierarchy_cut_child order pre
  have b: "hasCustomDataField cut_child_scene 2 8 = Inl FormatError \<and>
      search_loop cut_child_scene 8 [2, 3] [1] = Some (Inl FormatError, [1] @ [2], [3]) \<and>
      searchCustomDataField cut_child_scene
        (obj_of (Node 1 [Node 2 [], Node 3 []])) 8 = Some (Inl FormatError) \<and>
      map_option (\<lambda>r. fst (snd r))
        (search_loop cut_child_scene 8 [obj_of (Node 1 [Node 2 [], Node 3 []])] []) =
        Some ([1] @ [2])"
    by blast
  from a b len len2 hierarchy_cut_child order pre has_cut_child_3 show ?thesis
    unfolding root by simp
qed

text \<open>
  Claim C4, as stated, fails: below a root whose blob is cut after three bytes, a child
  carries the field 8 and the root does not, yet the search for the field 8 does not
  return the child; it ends with the \<open>FormatError\<close> of the root.
\<close>

theorem searchCustomDataField_bfs_counterexample:
  "hierarchy cut_root_scene (Node 1 [Node 2 []]) \<and>
   bfs [Node 1 [Node 2 []]] = [1, 2] \<and>
   hasCustomDataField cut_root_scene 1 8 \<noteq> Inr True \<and>
   hasCustomDataField cut_root_scene 2 8 = Inr True \<and>
   searchCustomDataField cut_root_scene 1 8 = Some (Inl FormatError) \<and>
   searchCustomDataField cut_root_scene 1 8 \<noteq> Some (Inr 2)"
proof -
  have h1: "hasCustomDataField cut_root_scene 1 8 = Inl FormatError"
    by (simp add: hasCustomDataField_def cut_root_scene_def table_scene_def DATA_ID_def
        parseCustomData_def parseUint32_def)
  have h2: "hasCustomDataField cut_root_scene 2 8 = Inr True"
    by (simp add: hasCustomDataField_def cut_root_scene_def table_scene_def DATA_ID_def
        parseCustomData_def parseUint32_def)
  have "search_loop cut_root_scene 8 [1] [] = Some (Inl FormatError, [1], [])"
    by (subst search_loop.simps) (simp add: h1)
  then have "searchCustomDataField cut_root_scene 1 8 = Some (Inl FormatError)"
    by (simp add: searchCustomDataField_def)
  with h1 h2 hierarchy_cut_root show ?thesis by simp
qed

text \<open>
  Claim C4, amended. For every finite tree of objects and every field, the search tests
  the objects in breadth-first order from the root, children left to right, up to and
  including the first object that is not passed over, that is, which carries the field or
  whose custom data does not parse. It returns that object if it carries the field, ends
  with the parser's error if its data does not parse, and returns \<open>-1\<close> if every object
  of the tree is passed over.
\<close>

theorem searchCustomDataField_bfs:
  assumes "hierarchy h t"
  shows "map_option (\<lambda>r. (fst r, fst (snd r))) (search_loop h field [obj_of t] []) =
           Some (outcome_at h field (dropWhile (passed_over h field) (bfs [t])),
                 takeWhile (passed_over h field) (bfs [t])
                   @ take 1 (dropWhile (passed_over h field) (bfs [t]))) \<and>
         searchCustomDataField h (obj_of t) field =
           Some (outcome_at h field (dropWhile (passed_over h field) (bfs [t])))"
  using search_loop_tree [OF assms, of field]
  by (auto simp: searchCustomDataField_def)

text \<open>
  Claim C4, amended, on the two-level tree: the objects 5 and 6 carry the field 8, and
  the search returns 5 after testing 1, 2, 3, 4, 5.
\<close>

theorem searchCustomDataField_bfs_witness:
  "hierarchy level_scene level_tree \<and>
   map_option (\<lambda>r. (fst r, fst (snd r))) (search_loop level_scene 8 [1] []) =
     Some (Inr 5, [1, 2, 3, 4, 5]) \<and>
   searchCustomDataField level_scene 1 8 = Some (Inr 5)"
  using searchCustomDataField_bfs [OF hierarchy_level, of 8]
  by (simp add: hierarchy_level bfs_level passed_over_def outcome_at_def has_level)
    (simp add: level_tree_def)

text \<open>
  Claim C10. On every finite tree of objects the search returns (both loops end). The
  objects tested followed by the objects left in the queue, which together are all the
  objects ever enqueued, form an initial part of the breadth-first order of the tree: every
  node of the tree, that is the root and every parent edge, is enqueued at most once. If
  every object is passed over, all of them are tested, the queue ends empty and the result
  is \<open>-1\<close>.
\<close>

theorem search_terminates:
  assumes "hierarchy h t"
  shows "\<exists>out vis q'.
           search_loop h field [obj_of t] [] = Some (out, vis, q') \<and>
           searchCustomDataField h (obj_of t) field = Some out \<and>
           prefix (vis @ q') (bfs [t]) \<and>
           (list_all (passed_over h field) (bfs [t]) \<longrightarrow> out = Inr (-1) \<and> vis = bfs [t] \<and> q' = [])"
proof -
  let ?P = "passed_over h field"
  from search_loop_tree [OF assms, of field] obtain q' where
    run: "search_loop h field [obj_of t] [] =
           Some (outcome_at h field (dropWhile ?P (bfs [t])),
                 takeWhile ?P (bfs [t]) @ take 1 (dropWhile ?P (bfs [t])), q')"
    and pf: "prefix (takeWhile ?P (bfs [t]) @ take 1 (dropWhile ?P (bfs [t])) @ q') (bfs [t])"
    and ex: "dropWhile ?P (bfs [t]) = [] \<longrightarrow> q' = []"
    by blast
  have all: "dropWhile ?P (bfs [t]) = [] \<and> takeWhile ?P (bfs [t]) = bfs [t]"
    if "list_all ?P (bfs [t])"
    using that by (simp add: list_all_iff)
  have out: "outcome_at h field [] = Inr (-1)"
    by (simp add: outcome_at_def)
  from run have "searchCustomDataField h (obj_of t) field =
      Some (outcome_at h field (dropWhile ?P (bfs [t])))"
    by (simp add: searchCustomDataField_def)
  moreover from pf have "prefix ((takeWhile ?P (bfs [t]) @ take 1 (dropWhile ?P (bfs [t]))) @ q')
      (bfs [t])"
    by simp
  moreover have "outcome_at h field (dropWhile ?P (bfs [t])) = Inr (-1) \<and>
      takeWhile ?P (bfs [t]) @ take 1 (dropWhile ?P (bfs [t])) = bfs [t] \<and> q' = []"
    if "list_all ?P (bfs [t])"
  proof -
    from all [OF that] have d: "dropWhile ?P (bfs [t]) = []"
      and tk: "takeWhile ?P (bfs [t]) = bfs [t]"
      by blast+
    from ex d have "q' = []" by blast
    then show ?thesis unfolding d tk using out by simp
  qed
  ultimately show ?thesis using run by blast
qed

text \<open>Claim C10 on the two-level tree, searched for a field that no object carries.\<close>

theorem search_terminates_witness:
  "hierarchy level_scene level_tree \<and>
   search_loop level_scene 9 [1] [] = Some (Inr (-1), [1, 2, 3, 4, 5, 6, 7], []) \<and>
   searchCustomDataField level_scene 1 9 = Some (Inr (-1))"
  using search_terminates [OF hierarchy_level, of 9]
  by (simp add: hierarchy_level bfs_level passed_over_def has_level_9)
    (auto simp add: level_tree_def)

section \<open>Properties of the controller\<close>

lemma setMotorParticleVelocity_state: "fst (setMotorParticleVelocity E q n v) = q"
  by (simp add: setMotorParticleVelocity_def Let_def)

lemma pidControl_completed:
  assumes "pidControl_compute E q = Inr (l, q')"
  shows "state (pidControl E q) = q'"
    and "calls (pidControl E q) =
           snd (setMotorParticleVelocity E q' 0 (motorVel l ! 0)) @
           snd (setMotorParticleVelocity E q' 1 (motorVel l ! 1)) @
           snd (setMotorParticleVelocity E q' 2 (motorVel l ! 2)) @
           snd (setMotorParticleVelocity E q' 3 (motorVel l ! 3))"
    and "stderr (pidControl E q) = []"
  using assms
  by (simp_all add: pidControl_def setMotorParticleVelocity_def Let_def split: prod.splits)

text \<open>When all eight reads succeed, the computation reaches the motor values.\<close>

lemma pidControl_compute_succeeds:
  assumes "simGetObjectPosition E (m_target q) (-1) = Some targetPos"
    and "simGetObjectPosition E (m_body q) (-1) = Some pos"
    and "simGetObjectVelocity E (m_obj q) = Some vel"
    and "simGetObjectPosition E (m_target q) (m_body q) = Some sp"
    and "simGetObjectMatrix E (m_body q) (-1) = Some m"
    and "simTransformVector E m (arr3 (flit E 1) (flit E 0) (flit E 0)) = Some vx"
    and "simTransformVector E m (arr3 (flit E 0) (flit E 1) (flit E 0)) = Some vy"
    and "simGetObjectOrientation E (m_body q) (m_target q) = Some euler"
  shows "\<exists>l q'. pidControl_compute E q = Inr (l, q')"
  using assms by (simp add: pidControl_compute_def Let_def)

lemma compute_rising:
  "pidControl_compute rising_env hover_quad =
     Inr (\<lparr>thrust = 4.335, alphaCorr = 0, betaCorr = 0, rotCorr = 0,
            motorVel = [4.335, 4.335, 4.335, 4.335]\<rparr>,
          hover_quad\<lparr>m_cumul := 1, m_lastE := 1\<rparr>)"
  by (simp add: pidControl_compute_def rising_env_def hover_env_def hover_quad_def arr3_def
      Let_def)

lemma compute_hover:
  "pidControl_compute hover_env hover_quad =
     Inr (\<lparr>thrust = 6.335, alphaCorr = 0, betaCorr = 0, rotCorr = 0,
            motorVel = [6.335, 6.335, 6.335, 6.335]\<rparr>,
          hover_quad\<lparr>m_cumul := 1, m_lastE := 1\<rparr>)"
  by (simp add: pidControl_compute_def hover_env_def hover_quad_def arr3_def Let_def)

lemma compute_no_velocity:
  "pidControl no_velocity_env used_quad =
     \<lparr>state = used_quad, calls = [],
      stderr = [CheckFailed 298 ''simGetObjectVelocity(m_obj, vel, NULL)'']\<rparr>"
  by (simp add: pidControl_def pidControl_compute_def no_velocity_env_def hover_env_def
      used_quad_def Let_def)

text \<open>
  Claim C1, as stated, fails: the vertical velocity in the thrust is read from the
  quadcopter object \<open>m_obj\<close>, not from the body object \<open>m_body\<close>. Where object 1 rises
  with velocity 1 and its body, object 2, has velocity 0, the thrust is 4.335, and would be
  6.335 with the body's velocity.
\<close>

theorem pidControl_vertical_counterexample:
  "m_obj hover_quad = 1 \<and> m_body hover_quad = 2 \<and>
   computed_thrust rising_env hover_quad = Some 4.335 \<and>
   thrust_from_body_velocity rising_env hover_quad = Some 6.335 \<and>
   computed_thrust rising_env hover_quad \<noteq> thrust_from_body_velocity rising_env hover_quad"
  by (simp add: computed_thrust_def compute_rising)
     (simp add: thrust_from_body_velocity_def rising_env_def hover_env_def hover_quad_def
      arr3_def Let_def)

text \<open>
  Claim C1, amended. In every tick in which all reads succeed, with \<open>targetPos\<close> and
  \<open>pos\<close> the world positions of target and body and \<open>vel\<close> the velocity of the
  quadcopter object \<open>m_obj\<close>: the error is \<open>targetPos[2] - pos[2]\<close>, it is added to
  \<open>m_cumul\<close> and stored in \<open>m_lastE\<close>, and the thrust is
  \<open>5.335 + 1.0 * error + 0.0 * m_cumul + 0.0 * (error - m_lastE) + vel[2] * (-2.0)\<close>,
  with the new \<open>m_cumul\<close> and the old \<open>m_lastE\<close>.
\<close>

theorem pidControl_vertical:
  assumes "pidControl_compute E q = Inr (l, q')"
    and "simGetObjectPosition E (m_target q) (-1) = Some targetPos"
    and "simGetObjectPosition E (m_body q) (-1) = Some pos"
    and "simGetObjectVelocity E (m_obj q) = Some vel"
  shows "m_cumul q' = m_cumul q + (targetPos 2 - pos 2) \<and>
         m_lastE q' = targetPos 2 - pos 2 \<and>
         thrust l = flit E 5.335 + flit E 1 * (targetPos 2 - pos 2)
                      + flit E 0 * (m_cumul q + (targetPos 2 - pos 2))
                      + flit E 0 * ((targetPos 2 - pos 2) - m_lastE q)
                      + vel 2 * (- flit E 2) \<and>
         state (pidControl E q) = q'"
proof -
  from assms have "m_cumul q' = m_cumul q + (targetPos 2 - pos 2)"
    by (auto simp: pidControl_compute_def Let_def split: option.splits)
  moreover from assms have "m_lastE q' = targetPos 2 - pos 2"
    by (auto simp: pidControl_compute_def Let_def split: option.splits)
  moreover from assms have "thrust l = flit E 5.335 + flit E 1 * (targetPos 2 - pos 2)
                      + flit E 0 * (m_cumul q + (targetPos 2 - pos 2))
                      + flit E 0 * ((targetPos 2 - pos 2) - m_lastE q)
                      + vel 2 * (- flit E 2)"
    by (auto simp: pidControl_compute_def Let_def split: option.splits)
  ultimately show ?thesis using pidControl_completed(1) [OF assms(1)] by simp
qed

text \<open>Claim C1, amended, where the quadcopter object rises with velocity 1.\<close>

theorem pidControl_vertical_witness:
  "pidControl_compute rising_env hover_quad =
     Inr (\<lparr>thrust = 4.335, alphaCorr = 0, betaCorr = 0, rotCorr = 0,
            motorVel = [4.335, 4.335, 4.335, 4.335]\<rparr>,
          hover_quad\<lparr>m_cumul := 1, m_lastE := 1\<rparr>) \<and>
   simGetObjectPosition rising_env (m_target hover_quad) (-1) = Some (arr3 0 0 2) \<and>
   simGetObjectPosition rising_env (m_body hover_quad) (-1) = Some (arr3 0 0 1) \<and>
   simGetObjectVelocity rising_env (m_obj hover_quad) = Some (arr3 0 0 1) \<and>
   m_cumul (state (pidControl rising_env hover_quad)) = 1 \<and>
   m_lastE (state (pidControl rising_env hover_quad)) = 1"
proof -
  have r1: "simGetObjectPosition rising_env (m_target hover_quad) (-1) = Some (arr3 0 0 2)"
    by (simp add: rising_env_def hover_env_def hover_quad_def)
  have r2: "simGetObjectPosition rising_env (m_body hover_quad) (-1) = Some (arr3 0 0 1)"
    by (simp add: rising_env_def hover_env_def hover_quad_def)
  have r3: "simGetObjectVelocity rising_env (m_obj hover_quad) = Some (arr3 0 0 1)"
    by (simp add: rising_env_def hover_env_def hover_quad_def)
  show ?thesis
    using pidControl_vertical [OF compute_rising r1 r2 r3] compute_rising r1 r2 r3
    by (simp add: hover_quad_def arr3_def)
qed

text \<open>
  Claim C5. In every tick in which all reads succeed, the four values handed to
  \<open>setMotorParticleVelocity\<close> for the motors 0 to 3 are
  \<open>thrust * (1 - alphaCorr + betaCorr + rotCorr)\<close>,
  \<open>thrust * (1 - alphaCorr - betaCorr - rotCorr)\<close>,
  \<open>thrust * (1 + alphaCorr - betaCorr + rotCorr)\<close> and
  \<open>thrust * (1 + alphaCorr + betaCorr - rotCorr)\<close>. In exact arithmetic, with the target
  at height 2, the body at height 1, vertical velocity 0 and the three corrections 0, the
  thrust and the four motor values are 6.335.
\<close>

theorem pidControl_motor_mixing:
  fixes E :: "('f::{plus,minus,times,uminus}) env" and R :: "real env"
  shows
  "(pidControl_compute E q = Inr (l, q') \<longrightarrow>
      motorVel l =
        [thrust l * (flit E 1 - alphaCorr l + betaCorr l + rotCorr l),
         thrust l * (flit E 1 - alphaCorr l - betaCorr l - rotCorr l),
         thrust l * (flit E 1 + alphaCorr l - betaCorr l + rotCorr l),
         thrust l * (flit E 1 + alphaCorr l + betaCorr l - rotCorr l)] \<and>
      calls (pidControl E q) =
        snd (setMotorParticleVelocity E q' 0
               (thrust l * (flit E 1 - alphaCorr l + betaCorr l + rotCorr l))) @
        snd (setMotorParticleVelocity E q' 1
               (thrust l * (flit E 1 - alphaCorr l - betaCorr l - rotCorr l))) @
        snd (setMotorParticleVelocity E q' 2
               (thrust l * (flit E 1 + alphaCorr l - betaCorr l + rotCorr l))) @
        snd (setMotorParticleVelocity E q' 3
               (thrust l * (flit E 1 + alphaCorr l + betaCorr l - rotCorr l)))) \<and>
   (flit R = (\<lambda>x. x) \<and> pidControl_compute R p = Inr (k, p') \<and>
    simGetObjectPosition R (m_target p) (-1) = Some targetPos \<and> targetPos 2 = 2 \<and>
    simGetObjectPosition R (m_body p) (-1) = Some pos \<and> pos 2 = 1 \<and>
    simGetObjectVelocity R (m_obj p) = Some vel \<and> vel 2 = 0 \<and>
    alphaCorr k = 0 \<and> betaCorr k = 0 \<and> rotCorr k = 0 \<longrightarrow>
      thrust k = 6.335 \<and> motorVel k = [6.335, 6.335, 6.335, 6.335])"
proof (intro conjI impI)
  assume c: "pidControl_compute E q = Inr (l, q')"
  then show mv: "motorVel l =
        [thrust l * (flit E 1 - alphaCorr l + betaCorr l + rotCorr l),
         thrust l * (flit E 1 - alphaCorr l - betaCorr l - rotCorr l),
         thrust l * (flit E 1 + alphaCorr l - betaCorr l + rotCorr l),
         thrust l * (flit E 1 + alphaCorr l + betaCorr l - rotCorr l)]"
    by (auto simp: pidControl_compute_def Let_def split: option.splits)
  show "calls (pidControl E q) =
        snd (setMotorParticleVelocity E q' 0
               (thrust l * (flit E 1 - alphaCorr l + betaCorr l + rotCorr l))) @
        snd (setMotorParticleVelocity E q' 1
               (thrust l * (flit E 1 - alphaCorr l - betaCorr l - rotCorr l))) @
        snd (setMotorParticleVelocity E q' 2
               (thrust l * (flit E 1 + alphaCorr l - betaCorr l + rotCorr l))) @
        snd (setMotorParticleVelocity E q' 3
               (thrust l * (flit E 1 + alphaCorr l + betaCorr l - rotCorr l)))"
    unfolding pidControl_completed(2) [OF c] mv by simp
next
  assume a: "flit R = (\<lambda>x. x) \<and> pidControl_compute R p = Inr (k, p') \<and>
    simGetObjectPosition R (m_target p) (-1) = Some targetPos \<and> targetPos 2 = 2 \<and>
    simGetObjectPosition R (m_body p) (-1) = Some pos \<and> pos 2 = 1 \<and>
    simGetObjectVelocity R (m_obj p) = Some vel \<and> vel 2 = 0 \<and>
    alphaCorr k = 0 \<and> betaCorr k = 0 \<and> rotCorr k = 0"
  then have c: "pidControl_compute R p = Inr (k, p')" by simp
  from a have th: "thrust k = flit R 5.335 + flit R 1 * (targetPos 2 - pos 2)
                      + flit R 0 * (m_cumul p + (targetPos 2 - pos 2))
                      + flit R 0 * ((targetPos 2 - pos 2) - m_lastE p)
                      + vel 2 * (- flit R 2)"
    by (auto simp: pidControl_compute_def Let_def split: option.splits)
  with a show t: "thrust k = 6.335" by simp
  from c have "motorVel k =
        [thrust k * (flit R 1 - alphaCorr k + betaCorr k + rotCorr k),
         thrust k * (flit R 1 - alphaCorr k - betaCorr k - rotCorr k),
         thrust k * (flit R 1 + alphaCorr k - betaCorr k + rotCorr k),
         thrust k * (flit R 1 + alphaCorr k + betaCorr k - rotCorr k)]"
    by (auto simp: pidControl_compute_def Let_def split: option.splits)
  with a t show "motorVel k = [6.335, 6.335, 6.335, 6.335]" by simp
qed

text \<open>Claim C5 on the hovering scene: four actuator calls, each with 6.335.\<close>

theorem pidControl_motor_mixing_witness:
  "pidControl_compute hover_env hover_quad =
     Inr (\<lparr>thrust = 6.335, alphaCorr = 0, betaCorr = 0, rotCorr = 0,
            motorVel = [6.335, 6.335, 6.335, 6.335]\<rparr>,
          hover_quad\<lparr>m_cumul := 1, m_lastE := 1\<rparr>) \<and>
   calls (pidControl hover_env hover_quad) =
     [SetScriptSimulationParameter 104 ''particleVelocity'' ''6.335000'',
      SetScriptSimulationParameter 105 ''particleVelocity'' ''6.335000'',
      SetScriptSimulationParameter 106 ''particleVelocity'' ''6.335000'',
      SetScriptSimulationParameter 107 ''particleVelocity'' ''6.335000'']"
  using pidControl_motor_mixing
    [where E = hover_env and q = hover_quad
       and l = "\<lparr>thrust = 6.335, alphaCorr = 0, betaCorr = 0, rotCorr = 0,
                  motorVel = [6.335, 6.335, 6.335, 6.335]\<rparr>"
       and q' = "hover_quad\<lparr>m_cumul := 1, m_lastE := 1\<rparr>"
       and R = hover_env and p = hover_quad
       and k = "\<lparr>thrust = 6.335, alphaCorr = 0, betaCorr = 0, rotCorr = 0,
                  motorVel = [6.335, 6.335, 6.335, 6.335]\<rparr>"
       and p' = "hover_quad\<lparr>m_cumul := 1, m_lastE := 1\<rparr>"
       and targetPos = "arr3 0 0 2" and pos = "arr3 0 0 1" and vel = "arr3 0 0 0"]
    compute_hover
  by (simp add: setMotorParticleVelocity_def hover_env_def hover_quad_def arr3_def)

text \<open>
  Claim C6. When a read fails, \<open>pidControl\<close> makes no actuator call and prints one
  line, and the members are those assigned before the failing read: none if one of the
  first three reads fails; \<open>m_cumul\<close> and \<open>m_lastE\<close> if the relative position, the
  matrix or one of the two vector transforms fails; these and \<open>m_pAlphaE\<close>,
  \<open>m_pBetaE\<close>, \<open>m_psp0\<close>, \<open>m_psp1\<close> if the orientation fails. The next tick is
  \<open>pidControl\<close> on that state.
\<close>

theorem pidControl_failed_read:
  "(simGetObjectPosition E (m_target q) (-1) = None \<or>
    simGetObjectPosition E (m_body q) (-1) = None \<or>
    simGetObjectVelocity E (m_obj q) = None \<longrightarrow>
      (\<exists>line. pidControl E q = \<lparr>state = q, calls = [], stderr = [line]\<rparr>)) \<and>
   (simGetObjectPosition E (m_target q) (-1) = Some targetPos \<and>
    simGetObjectPosition E (m_body q) (-1) = Some pos \<and>
    simGetObjectVelocity E (m_obj q) = Some vel \<and>
    (simGetObjectPosition E (m_target q) (m_body q) = None \<or>
     simGetObjectMatrix E (m_body q) (-1) = None \<or>
     simGetObjectMatrix E (m_body q) (-1) = Some m \<and>
       (simTransformVector E m (arr3 (flit E 1) (flit E 0) (flit E 0)) = None \<or>
        simTransformVector E m (arr3 (flit E 0) (flit E 1) (flit E 0)) = None)) \<longrightarrow>
      (\<exists>line. pidControl E q =
         \<lparr>state = q\<lparr>m_cumul := m_cumul q + (targetPos 2 - pos 2),
                      m_lastE := targetPos 2 - pos 2\<rparr>,
          calls = [], stderr = [line]\<rparr>)) \<and>
   (simGetObjectPosition E (m_target q) (-1) = Some targetPos \<and>
    simGetObjectPosition E (m_body q) (-1) = Some pos \<and>
    simGetObjectVelocity E (m_obj q) = Some vel \<and>
    simGetObjectPosition E (m_target q) (m_body q) = Some sp \<and>
    simGetObjectMatrix E (m_body q) (-1) = Some m \<and>
    simTransformVector E m (arr3 (flit E 1) (flit E 0) (flit E 0)) = Some vx \<and>
    simTransformVector E m (arr3 (flit E 0) (flit E 1) (flit E 0)) = Some vy \<and>
    simGetObjectOrientation E (m_body q) (m_target q) = None \<longrightarrow>
      (\<exists>line. pidControl E q =
         \<lparr>state = q\<lparr>m_cumul := m_cumul q + (targetPos 2 - pos 2),
                      m_lastE := targetPos 2 - pos 2,
                      m_pAlphaE := vy 2 - m 11,
                      m_pBetaE := vx 2 - m 11,
                      m_psp0 := sp 0,
                      m_psp1 := sp 1\<rparr>,
          calls = [], stderr = [line]\<rparr>))"
proof (intro conjI impI)
  assume "simGetObjectPosition E (m_target q) (-1) = None \<or>
    simGetObjectPosition E (m_body q) (-1) = None \<or>
    simGetObjectVelocity E (m_obj q) = None"
  then show "\<exists>line. pidControl E q = \<lparr>state = q, calls = [], stderr = [line]\<rparr>"
    by (auto simp: pidControl_def pidControl_compute_def Let_def split: option.splits)
next
  assume "simGetObjectPosition E (m_target q) (-1) = Some targetPos \<and>
    simGetObjectPosition E (m_body q) (-1) = Some pos \<and>
    simGetObjectVelocity E (m_obj q) = Some vel \<and>
    (simGetObjectPosition E (m_target q) (m_body q) = None \<or>
     simGetObjectMatrix E (m_body q) (-1) = None \<or>
     simGetObjectMatrix E (m_body q) (-1) = Some m \<and>
       (simTransformVector E m (arr3 (flit E 1) (flit E 0) (flit E 0)) = None \<or>
        simTransformVector E m (arr3 (flit E 0) (flit E 1) (flit E 0)) = None))"
  then show "\<exists>line. pidControl E q =
         \<lparr>state = q\<lparr>m_cumul := m_cumul q + (targetPos 2 - pos 2),
                      m_lastE := targetPos 2 - pos 2\<rparr>,
          calls = [], stderr = [line]\<rparr>"
    by (auto simp: pidControl_def pidControl_compute_def Let_def split: option.splits)
next
  assume "simGetObjectPosition E (m_target q) (-1) = Some targetPos \<and>
    simGetObjectPosition E (m_body q) (-1) = Some pos \<and>
    simGetObjectVelocity E (m_obj q) = Some vel \<and>
    simGetObjectPosition E (m_target q) (m_body q) = Some sp \<and>
    simGetObjectMatrix E (m_body q) (-1) = Some m \<and>
    simTransformVector E m (arr3 (flit E 1) (flit E 0) (flit E 0)) = Some vx \<and>
    simTransformVector E m (arr3 (flit E 0) (flit E 1) (flit E 0)) = Some vy \<and>
    simGetObjectOrientation E (m_body q) (m_target q) = None"
  then show "\<exists>line. pidControl E q =
         \<lparr>state = q\<lparr>m_cumul := m_cumul q + (targetPos 2 - pos 2),
                      m_lastE := targetPos 2 - pos 2,
                      m_pAlphaE := vy 2 - m 11,
                      m_pBetaE := vx 2 - m 11,
                      m_psp0 := sp 0,
                      m_psp1 := sp 1\<rparr>,
          calls = [], stderr = [line]\<rparr>"
    by (auto simp: pidControl_def pidControl_compute_def Let_def split: option.splits)
qed

text \<open>
  Claim C6 on the hovering scene with a used state, the velocity, the matrix or the
  orientation failing.
\<close>

theorem pidControl_failed_read_witness:
  "simGetObjectVelocity no_velocity_env (m_obj used_quad) = None \<and>
   pidControl no_velocity_env used_quad =
     \<lparr>state = used_quad, calls = [],
      stderr = [CheckFailed 298 ''simGetObjectVelocity(m_obj, vel, NULL)'']\<rparr> \<and>
   simGetObjectMatrix no_matrix_env (m_body used_quad) (-1) = None \<and>
   pidControl no_matrix_env used_quad =
     \<lparr>state = used_quad\<lparr>m_cumul := 4, m_lastE := 1\<rparr>, calls = [],
      stderr = [CheckFailed 313 ''simGetObjectMatrix(d, -1, m)'']\<rparr> \<and>
   simGetObjectOrientation no_orientation_env (m_body used_quad) (m_target used_quad) = None \<and>
   pidControl no_orientation_env used_quad =
     \<lparr>state = used_quad\<lparr>m_cumul := 4, m_lastE := 1, m_pAlphaE := 0, m_pBetaE := 0,
                            m_psp0 := 0, m_psp1 := 0\<rparr>, calls = [],
      stderr = [CheckFailed 332 ''simGetObjectOrientation(d, m_target, euler)'']\<rparr>"
proof -
  have a: "simGetObjectVelocity no_velocity_env (m_obj used_quad) = None"
    by (simp add: no_velocity_env_def)
  have a': "\<exists>line. pidControl no_velocity_env used_quad =
      \<lparr>state = used_quad, calls = [], stderr = [line]\<rparr>"
    using pidControl_failed_read [where E = no_velocity_env and q = used_quad] a by blast
  have b: "simGetObjectPosition no_matrix_env (m_target used_quad) (-1) = Some (arr3 0 0 2) \<and>
      simGetObjectPosition no_matrix_env (m_body used_quad) (-1) = Some (arr3 0 0 1) \<and>
      simGetObjectVelocity no_matrix_env (m_obj used_quad) = Some (arr3 0 0 0) \<and>
      simGetObjectMatrix no_matrix_env (m_body used_quad) (-1) = None"
    by (simp add: no_matrix_env_def hover_env_def used_quad_def)
  have b': "\<exists>line. pidControl no_matrix_env used_quad =
      \<lparr>state = used_quad\<lparr>m_cumul := m_cumul used_quad + (arr3 0 0 2 2 - arr3 0 0 1 2),
                             m_lastE := arr3 0 0 2 2 - arr3 0 0 1 2\<rparr>,
       calls = [], stderr = [line]\<rparr>"
    using pidControl_failed_read [where E = no_matrix_env and q = used_quad
        and targetPos = "arr3 0 0 2" and pos = "arr3 0 0 1" and vel = "arr3 0 0 0"] b
    by blast
  have c: "simGetObjectPosition no_orientation_env (m_target used_quad) (-1) = Some (arr3 0 0 2) \<and>
      simGetObjectPosition no_orientation_env (m_body used_quad) (-1) = Some (arr3 0 0 1) \<and>
      simGetObjectVelocity no_orientation_env (m_obj used_quad) = Some (arr3 0 0 0) \<and>
      simGetObjectPosition no_orientation_env (m_target used_quad) (m_body used_quad)
        = Some (arr3 0 0 0) \<and>
      simGetObjectMatrix no_orientation_env (m_body used_quad) (-1) = Some (\<lambda>i. 0) \<and>
      simTransformVector no_orientation_env (\<lambda>i. 0)
        (arr3 (flit no_orientation_env 1) (flit no_orientation_env 0) (flit no_orientation_env 0))
        = Some (arr3 0 0 0) \<and>
      simTransformVector no_orientation_env (\<lambda>i. 0)
        (arr3 (flit no_orientation_env 0) (flit no_orientation_env 1) (flit no_orientation_env 0))
        = Some (arr3 0 0 0) \<and>
      simGetObjectOrientation no_orientation_env (m_body used_quad) (m_target used_quad) = None"
    by (simp add: no_orientation_env_def hover_env_def used_quad_def)
  have c': "\<exists>line. pidControl no_orientation_env used_quad =
      \<lparr>state = used_quad\<lparr>m_cumul := m_cumul used_quad + (arr3 0 0 2 2 - arr3 0 0 1 2),
                             m_lastE := arr3 0 0 2 2 - arr3 0 0 1 2,
                             m_pAlphaE := arr3 0 0 0 2 - (\<lambda>i. 0) 11,
                             m_pBetaE := arr3 0 0 0 2 - (\<lambda>i. 0) 11,
                             m_psp0 := arr3 0 0 0 0,
                             m_psp1 := arr3 0 0 0 1\<rparr>,
       calls = [], stderr = [line]\<rparr>"
    using pidControl_failed_read [where E = no_orientation_env and q = used_quad
        and targetPos = "arr3 0 0 2" and pos = "arr3 0 0 1" and vel = "arr3 0 0 0"
        and sp = "arr3 0 0 0" and m = "\<lambda>i. 0" and vx = "arr3 0 0 0" and vy = "arr3 0 0 0"] c
    by blast
  have m: "m_cumul used_quad = 3"
    by (simp add: used_quad_def)
  from a' have 1: "pidControl no_velocity_env used_quad =
     \<lparr>state = used_quad, calls = [],
      stderr = [CheckFailed 298 ''simGetObjectVelocity(m_obj, vel, NULL)'']\<rparr>"
    by (simp add: compute_no_velocity)
  have 2: "pidControl no_matrix_env used_quad =
     \<lparr>state = used_quad\<lparr>m_cumul := 4, m_lastE := 1\<rparr>, calls = [],
      stderr = [CheckFailed 313 ''simGetObjectMatrix(d, -1, m)'']\<rparr>"
  proof -
    from b' obtain line where l: "pidControl no_matrix_env used_quad =
      \<lparr>state = used_quad\<lparr>m_cumul := 4, m_lastE := 1\<rparr>, calls = [], stderr = [line]\<rparr>"
      by (auto simp: m arr3_def)
    have "stderr (pidControl no_matrix_env used_quad) =
        [CheckFailed 313 ''simGetObjectMatrix(d, -1, m)'']"
      by (simp add: pidControl_def pidControl_compute_def no_matrix_env_def hover_env_def
          used_quad_def Let_def)
    with l show ?thesis by simp
  qed
  have 3: "pidControl no_orientation_env used_quad =
     \<lparr>state = used_quad\<lparr>m_cumul := 4, m_lastE := 1, m_pAlphaE := 0, m_pBetaE := 0,
                            m_psp0 := 0, m_psp1 := 0\<rparr>, calls = [],
      stderr = [CheckFailed 332 ''simGetObjectOrientation(d, m_target, euler)'']\<rparr>"
  proof -
    from c' obtain line where l: "pidControl no_orientation_env used_quad =
      \<lparr>state = used_quad\<lparr>m_cumul := 4, m_lastE := 1, m_pAlphaE := 0, m_pBetaE := 0,
                            m_psp0 := 0, m_psp1 := 0\<rparr>, calls = [], stderr = [line]\<rparr>"
      by (auto simp: m arr3_def)
    have "stderr (pidControl no_orientation_env used_quad) =
        [CheckFailed 332 ''simGetObjectOrientation(d, m_target, euler)'']"
      by (simp add: pidControl_def pidControl_compute_def no_orientation_env_def hover_env_def
          used_quad_def arr3_def Let_def)
    with l show ?thesis by simp
  qed
  from a b c 1 2 3 show ?thesis by simp
qed

text \<open>
  Claim C7. Whatever the members hold, after \<open>simulationStarted\<close> the last-save time,
  the integral, the previous altitude error, the previous alpha and beta errors, the
  previous setpoint components and the previous yaw error are all \<open>0.0f\<close>; the object
  handles are unchanged.
\<close>

theorem simulationStarted_zeroes:
  "m_last_save_time (simulationStarted E q) = flit E 0 \<and>
   m_cumul (simulationStarted E q) = flit E 0 \<and>
   m_lastE (simulationStarted E q) = flit E 0 \<and>
   m_pAlphaE (simulationStarted E q) = flit E 0 \<and>
   m_pBetaE (simulationStarted E q) = flit E 0 \<and>
   m_psp0 (simulationStarted E q) = flit E 0 \<and>
   m_psp1 (simulationStarted E q) = flit E 0 \<and>
   m_prevEuler (simulationStarted E q) = flit E 0 \<and>
   m_obj (simulationStarted E q) = m_obj q \<and>
   m_body (simulationStarted E q) = m_body q \<and>
   m_target (simulationStarted E q) = m_target q \<and>
   m_motors (simulationStarted E q) = m_motors q"
  by (simp add: simulationStarted_def)

lemma simulationStarted_used_quad: "simulationStarted hover_env used_quad = hover_quad"
  by (simp add: simulationStarted_def hover_env_def used_quad_def hover_quad_def)

text \<open>
  Claim C8. For every index below 0 or above 3 and every velocity,
  \<open>setMotorParticleVelocity\<close> makes no actuator call and leaves the members unchanged.
\<close>

theorem setMotorParticleVelocity_out_of_range:
  "n < 0 \<or> n > 3 \<Longrightarrow> setMotorParticleVelocity E q n v = (q, [])"
  by (simp add: setMotorParticleVelocity_def)

text \<open>Claim C8 at the indices \<open>-1\<close> and 4, next to the call made at index 3.\<close>

theorem setMotorParticleVelocity_out_of_range_witness:
  "setMotorParticleVelocity hover_env hover_quad (-1) 6.335 = (hover_quad, []) \<and>
   setMotorParticleVelocity hover_env hover_quad 4 6.335 = (hover_quad, []) \<and>
   setMotorParticleVelocity hover_env hover_quad 3 6.335 =
     (hover_quad, [SetScriptSimulationParameter 107 ''particleVelocity'' ''6.335000''])"
  using setMotorParticleVelocity_out_of_range [of "-1" hover_env hover_quad "6.335"]
    setMotorParticleVelocity_out_of_range [of 4 hover_env hover_quad "6.335"]
  by (simp add: setMotorParticleVelocity_def hover_env_def hover_quad_def)

text \<open>
  Claim C9. \<open>getMotorParticleVelocity\<close> returns \<open>0.0f\<close>, without an exception, for
  every index outside 0 to 3, for an index in range whose motor has no script, and for an
  index in range whose script's parameter cannot be read.
\<close>

theorem getMotorParticleVelocity_zero:
  "(n < 0 \<or> n > 3 \<longrightarrow> fst (getMotorParticleVelocity E q n) = Inr (flit E 0)) \<and>
   (0 \<le> n \<and> n \<le> 3 \<and> simGetScriptAssociatedWithObject E (m_motors q ! nat n) = -1 \<longrightarrow>
      fst (getMotorParticleVelocity E q n) = Inr (flit E 0)) \<and>
   (0 \<le> n \<and> n \<le> 3 \<and> simGetScriptAssociatedWithObject E (m_motors q ! nat n) \<noteq> -1 \<and>
    simGetScriptSimulationParameter E
      (simGetScriptAssociatedWithObject E (m_motors q ! nat n)) ''particleVelocity'' = None \<longrightarrow>
      fst (getMotorParticleVelocity E q n) = Inr (flit E 0))"
  by (simp add: getMotorParticleVelocity_def Let_def)

text \<open>
  Claim C9 at the indices \<open>-1\<close> and 4, at a motor without script and at a motor whose
  parameter is not set.
\<close>

theorem getMotorParticleVelocity_zero_witness:
  "fst (getMotorParticleVelocity hover_env lame_quad (-1)) = Inr 0 \<and>
   fst (getMotorParticleVelocity hover_env lame_quad 4) = Inr 0 \<and>
   simGetScriptAssociatedWithObject hover_env (m_motors lame_quad ! nat 3) = -1 \<and>
   fst (getMotorParticleVelocity hover_env lame_quad 3) = Inr 0 \<and>
   simGetScriptAssociatedWithObject hover_env (m_motors lame_quad ! nat 0) = 104 \<and>
   simGetScriptSimulationParameter hover_env 104 ''particleVelocity'' = None \<and>
   fst (getMotorParticleVelocity hover_env lame_quad 0) = Inr 0"
proof -
  have s3: "simGetScriptAssociatedWithObject hover_env (m_motors lame_quad ! nat 3) = -1"
    by (simp add: hover_env_def lame_quad_def hover_quad_def)
  have s0: "simGetScriptAssociatedWithObject hover_env (m_motors lame_quad ! nat 0) = 104"
    by (simp add: hover_env_def lame_quad_def hover_quad_def)
  have p0: "simGetScriptSimulationParameter hover_env 104 ''particleVelocity'' = None"
    by (simp add: hover_env_def)
  have z: "flit hover_env 0 = 0"
    by (simp add: hover_env_def)
  show ?thesis
    using getMotorParticleVelocity_zero [of "-1" hover_env lame_quad]
      getMotorParticleVelocity_zero [of 4 hover_env lame_quad]
      getMotorParticleVelocity_zero [of 3 hover_env lame_quad]
      getMotorParticleVelocity_zero [of 0 hover_env lame_quad]
      s3 s0 p0 z
    by simp
qed

end
